theory Spec2Isabelle
  imports Main "HOL-Library.Word"
begin

unbundle bit_operations_syntax

section \<open>Data model (include/libco\_oop/context.h)\<close>

text \<open>
  Pointers (\<open>void*\<close>) and \<open>size_t\<close> are 64-bit words on the only supported target
  (x86-64); the null pointer is the word \<open>0\<close>. \<open>uint16_t\<close> and \<open>uint32_t\<close> are
  16-bit and 32-bit words, the C \<open>int\<close> returned by the save primitive is a 32-bit word.
\<close>

type_synonym ptr = "64 word"

datatype ContextMode = MINIMAL | COMPLETE

record ContextConfig =
  mode :: ContextMode
  save_fpu :: bool
  enable_debugging :: bool

text \<open>The default member initialisers of \<open>ContextConfig\<close>.\<close>

definition ContextConfig_default :: ContextConfig where
  "ContextConfig_default = \<lparr>mode = COMPLETE, save_fpu = True, enable_debugging = False\<rparr>"

text \<open>\<open>struct alignas(16) RegisterState\<close>, fields in declaration order.\<close>

record RegisterState =
  r12 :: ptr
  r13 :: ptr
  r14 :: ptr
  r15 :: ptr
  rip :: ptr
  rsp :: ptr
  rbx :: ptr
  rbp :: ptr
  fpucw :: "16 word"
  mxcsr :: "32 word"
  pad :: "16 word"

text \<open>The block after \<open>std::memset(&registers_, 0, sizeof(registers_))\<close>.\<close>

definition zeroed_registers :: RegisterState where
  "zeroed_registers =
     \<lparr>r12 = 0, r13 = 0, r14 = 0, r15 = 0, rip = 0, rsp = 0, rbx = 0, rbp = 0,
      fpucw = 0, mxcsr = 0, pad = 0\<rparr>"

text \<open>The private members of \<open>class Context\<close>, in declaration order (\<open>registers_\<close>,
  \<open>config_\<close>, \<open>is_valid_\<close>, \<open>switch_count_\<close>; a HOL name cannot end in an underscore).\<close>

record Context =
  m_registers :: RegisterState
  m_config :: ContextConfig
  m_is_valid :: bool
  m_switch_count :: "64 word"

section \<open>Alignment utilities\<close>

text \<open>Modelled from the spec: the assembly file context\_switch.S, which implements
  \<open>libco_oop_is_stack_aligned\<close> and \<open>libco_oop_align_stack_pointer\<close>, is not among the
  sources. The spec describes them as "test N-byte alignment of an arbitrary pointer" and
  "round an arbitrary pointer down to the required alignment", the required alignment being
  16 bytes (context.h: "whether aligned to 16 bytes").
\<close>

definition libco_oop_is_stack_aligned :: "ptr \<Rightarrow> bool" where
  "libco_oop_is_stack_aligned sp = (sp AND 15 = 0)"

definition libco_oop_align_stack_pointer :: "ptr \<Rightarrow> ptr" where
  "libco_oop_align_stack_pointer sp = sp AND NOT 15"

text \<open>\<open>context_utils::is_stack_aligned\<close> and \<open>context_utils::align_stack_pointer\<close>
  (context.cpp), which guard the assembly helpers against the null pointer.\<close>

definition is_stack_aligned :: "ptr \<Rightarrow> bool" where
  "is_stack_aligned sp = (if sp = 0 then False else libco_oop_is_stack_aligned sp)"

definition align_stack_pointer :: "ptr \<Rightarrow> ptr" where
  "align_stack_pointer sp = (if sp = 0 then 0 else libco_oop_align_stack_pointer sp)"

section \<open>Operations on one Context object (src/core/context.cpp)\<close>

text \<open>\<open>Context::initialize_registers\<close>: zero the block, then the FPU/SSE defaults when
  the configuration asks for them.\<close>

definition initialize_registers :: "Context \<Rightarrow> Context" where
  "initialize_registers c =
     (let c1 = c\<lparr>m_registers := zeroed_registers\<rparr>
      in if save_fpu (m_config c1)
         then c1\<lparr>m_registers := (m_registers c1)\<lparr>fpucw := 0x037F, mxcsr := 0x1F80\<rparr>\<rparr>
         else c1)"

text \<open>
  \<open>Context::Context(const ContextConfig&)\<close>. The member \<open>registers_\<close> has no
  initialiser in the constructor's list, so it holds whatever the storage held (\<open>raw\<close>)
  until the body calls \<open>initialize_registers\<close>.
\<close>

definition Context_ctor :: "RegisterState \<Rightarrow> ContextConfig \<Rightarrow> Context" where
  "Context_ctor raw config =
     initialize_registers
       \<lparr>m_registers = raw, m_config = config, m_is_valid = False, m_switch_count = 0\<rparr>"

text \<open>\<open>Context::validate_state\<close>, with its four early returns in source order.\<close>

definition validate_state :: "Context \<Rightarrow> bool" where
  "validate_state c =
     (if \<not> m_is_valid c then False
      else if rsp (m_registers c) = 0 then False
      else if \<not> is_stack_aligned (rsp (m_registers c)) then False
      else if rip (m_registers c) = 0 \<and> 0 < m_switch_count c then False
      else True)"

definition is_valid :: "Context \<Rightarrow> bool" where
  "is_valid c = (m_is_valid c \<and> validate_state c)"

text \<open>\<open>Context::reset\<close>.\<close>

definition reset :: "Context \<Rightarrow> Context" where
  "reset c =
     initialize_registers
       (c\<lparr>m_registers := zeroed_registers, m_is_valid := False, m_switch_count := 0\<rparr>)"

definition get_stack_pointer :: "Context \<Rightarrow> ptr" where
  "get_stack_pointer c = rsp (m_registers c)"

definition get_instruction_pointer :: "Context \<Rightarrow> ptr" where
  "get_instruction_pointer c = rip (m_registers c)"

definition get_config :: "Context \<Rightarrow> ContextConfig" where
  "get_config c = m_config c"

definition get_switch_count :: "Context \<Rightarrow> 64 word" where
  "get_switch_count c = m_switch_count c"

text \<open>\<open>Context::set_stack_pointer\<close>: the returned pair is the \<open>bool\<close> result and the
  object afterwards.\<close>

definition set_stack_pointer :: "ptr \<Rightarrow> Context \<Rightarrow> bool \<times> Context" where
  "set_stack_pointer sp c =
     (if sp = 0 then (False, c)
      else
        let sp1 = (if \<not> is_stack_aligned sp then align_stack_pointer sp else sp);
            c1 = c\<lparr>m_registers := (m_registers c)\<lparr>rsp := sp1\<rparr>\<rparr>;
            c2 = (if \<not> m_is_valid c1 then c1\<lparr>m_is_valid := (rip (m_registers c1) \<noteq> 0)\<rparr> else c1)
        in (True, c2))"

text \<open>\<open>Context::set_instruction_pointer\<close>.\<close>

definition set_instruction_pointer :: "ptr \<Rightarrow> Context \<Rightarrow> bool \<times> Context" where
  "set_instruction_pointer ip c =
     (if ip = 0 then (False, c)
      else
        let c1 = c\<lparr>m_registers := (m_registers c)\<lparr>rip := ip\<rparr>\<rparr>;
            c2 = (if \<not> m_is_valid c1 then c1\<lparr>m_is_valid := (rsp (m_registers c1) \<noteq> 0)\<rparr> else c1)
        in (True, c2))"

section \<open>The machine: live registers and the objects in memory\<close>

text \<open>
  \<open>swap\<close> and move assignment take a second Context by reference, which may be the
  object itself, and the transfer primitives write through pointers. Objects therefore live
  in a store, addressed by where they are; the address of a Context stands for the address
  of its register block, which is its first member.
\<close>

type_synonym addr = nat

text \<open>
  The live register file, as far as a transfer touches it: the callee-saved registers, the
  stack pointer of the caller, the address at which execution continues when the primitive is
  left (the return address of the call), and the two FPU/SSE control words.
\<close>

record cpu_state =
  cpu_r12 :: ptr
  cpu_r13 :: ptr
  cpu_r14 :: ptr
  cpu_r15 :: ptr
  cpu_rip :: ptr
  cpu_rsp :: ptr
  cpu_rbx :: ptr
  cpu_rbp :: ptr
  cpu_fpucw :: "16 word"
  cpu_mxcsr :: "32 word"

record machine =
  cpu :: cpu_state
  heap :: "addr \<Rightarrow> Context"

definition update_ctx :: "addr \<Rightarrow> (Context \<Rightarrow> Context) \<Rightarrow> machine \<Rightarrow> machine" where
  "update_ctx a f m = m\<lparr>heap := (heap m)(a := f (heap m a))\<rparr>"

text \<open>
  The three \<open>extern "C"\<close> primitives are parameters of the operations that call them.
  A call of the save primitive comes back with an \<open>int\<close> and the machine as it is then; the
  restore primitive is \<open>[[noreturn]]\<close>, so all it yields is the machine in which execution
  goes on elsewhere; a call of the swap primitive either comes back, with the machine as it is
  by then, or never does (\<open>None\<close>).
\<close>

type_synonym save_prim = "addr \<Rightarrow> bool \<Rightarrow> machine \<Rightarrow> 32 word \<times> machine"
type_synonym restore_prim = "addr \<Rightarrow> bool \<Rightarrow> machine \<Rightarrow> machine"
type_synonym swap_prim = "addr \<Rightarrow> addr \<Rightarrow> bool \<Rightarrow> machine \<Rightarrow> machine option"

section \<open>Operations that involve the store (src/core/context.cpp)\<close>

text \<open>
  \<open>Context::Context(Context&&)\<close>: the new object at \<open>this\<close> takes the four members of
  \<open>other\<close>, then \<open>other\<close> is marked invalid and its counter cleared.
\<close>

definition move_ctor :: "addr \<Rightarrow> addr \<Rightarrow> machine \<Rightarrow> machine" where
  "move_ctor this other m =
     (let src = heap m other;
          m1 = m\<lparr>heap := (heap m)(this :=
                 \<lparr>m_registers = m_registers src, m_config = m_config src,
                  m_is_valid = m_is_valid src, m_switch_count = m_switch_count src\<rparr>)\<rparr>
      in update_ctx other (\<lambda>c. c\<lparr>m_is_valid := False, m_switch_count := 0\<rparr>) m1)"

text \<open>\<open>Context::operator=(Context&&)\<close>, with its guard against self-assignment.\<close>

definition move_assign :: "addr \<Rightarrow> addr \<Rightarrow> machine \<Rightarrow> machine" where
  "move_assign this other m =
     (if this \<noteq> other then
        let m1 = update_ctx this (\<lambda>c. c\<lparr>m_registers := m_registers (heap m other)\<rparr>) m;
            m2 = update_ctx this (\<lambda>c. c\<lparr>m_config := m_config (heap m1 other)\<rparr>) m1;
            m3 = update_ctx this (\<lambda>c. c\<lparr>m_is_valid := m_is_valid (heap m2 other)\<rparr>) m2;
            m4 = update_ctx this (\<lambda>c. c\<lparr>m_switch_count := m_switch_count (heap m3 other)\<rparr>) m3
        in update_ctx other (\<lambda>c. c\<lparr>m_is_valid := False, m_switch_count := 0\<rparr>) m4
      else m)"

text \<open>
  \<open>Context::save\<close>. The primitive is declared \<open>noexcept\<close>, so the \<open>catch (...)\<close>
  branch cannot be entered and has no counterpart here. Each return of the primitive (the
  first one, and every later one caused by a restore into the block) runs the code after
  the call once.
\<close>

definition save :: "save_prim \<Rightarrow> addr \<Rightarrow> machine \<Rightarrow> bool \<times> machine" where
  "save libco_oop_context_save this m =
     (let (result, m1) = libco_oop_context_save this (save_fpu (m_config (heap m this))) m
      in if result = 0
         then (True, update_ctx this (\<lambda>c. c\<lparr>m_is_valid := True\<rparr>) m1)
         else (True, update_ctx this (\<lambda>c. c\<lparr>m_switch_count := m_switch_count c + 1\<rparr>) m1))"

text \<open>\<open>Context::restore\<close> never returns: the process is terminated, or control is
  transferred by the primitive.\<close>

datatype restore_outcome = Terminated | Transferred machine

definition restore :: "restore_prim \<Rightarrow> addr \<Rightarrow> machine \<Rightarrow> restore_outcome" where
  "restore libco_oop_context_restore this m =
     (if \<not> m_is_valid (heap m this) \<or> \<not> validate_state (heap m this) then Terminated
      else Transferred (libco_oop_context_restore this (save_fpu (m_config (heap m this))) m))"

text \<open>
  \<open>Context::swap\<close>. \<open>None\<close> is a call that never returns because the primitive never
  comes back; as in \<open>save\<close>, the \<open>catch (...)\<close> branch is dead.
\<close>

definition swap :: "swap_prim \<Rightarrow> addr \<Rightarrow> addr \<Rightarrow> machine \<Rightarrow> (bool \<times> machine) option" where
  "swap libco_oop_context_swap this other m =
     (if \<not> validate_state (heap m this) \<or> \<not> validate_state (heap m other) then Some (False, m)
      else
        let fpu = (save_fpu (m_config (heap m this)) \<and> save_fpu (m_config (heap m other)))
        in case libco_oop_context_swap this other fpu m of
             None \<Rightarrow> None
           | Some m1 \<Rightarrow>
               Some (True,
                 update_ctx this
                   (\<lambda>c. c\<lparr>m_switch_count := m_switch_count c + 1, m_is_valid := True\<rparr>) m1))"

section \<open>The transfer primitives\<close>

text \<open>Modelled from the spec: context\_switch.S, the assembly that implements the three
  primitives, is not among the sources. The spec's save "stores the caller's current
  callee-saved registers, stack pointer, and return address into dest; optionally stores
  FPU/SSE control state".
\<close>

definition capture_registers :: "cpu_state \<Rightarrow> bool \<Rightarrow> RegisterState \<Rightarrow> RegisterState" where
  "capture_registers s fpu regs =
     (let regs1 = regs\<lparr>r12 := cpu_r12 s, r13 := cpu_r13 s, r14 := cpu_r14 s, r15 := cpu_r15 s,
                       rip := cpu_rip s, rsp := cpu_rsp s, rbx := cpu_rbx s, rbp := cpu_rbp s\<rparr>
      in if fpu then regs1\<lparr>fpucw := cpu_fpucw s, mxcsr := cpu_mxcsr s\<rparr> else regs1)"

text \<open>Modelled from the spec: the missing assembly's restore "loads src's registers, stack
  pointer, and return address into the CPU and transfers control to the loaded address".
\<close>

definition load_registers :: "RegisterState \<Rightarrow> bool \<Rightarrow> cpu_state \<Rightarrow> cpu_state" where
  "load_registers regs fpu s =
     (let s1 = s\<lparr>cpu_r12 := r12 regs, cpu_r13 := r13 regs, cpu_r14 := r14 regs,
                 cpu_r15 := r15 regs, cpu_rip := rip regs, cpu_rsp := rsp regs,
                 cpu_rbx := rbx regs, cpu_rbp := rbp regs\<rparr>
      in if fpu then s1\<lparr>cpu_fpucw := fpucw regs, cpu_mxcsr := mxcsr regs\<rparr> else s1)"

text \<open>Modelled from the spec: the missing restore primitive applied to the block of the object at
  \<open>regs\<close>; the result is the machine in which execution goes on at the loaded address.
\<close>

definition context_restore_transfer :: restore_prim where
  "context_restore_transfer regs fpu m =
     m\<lparr>cpu := load_registers (m_registers (heap m regs)) fpu (cpu m)\<rparr>"

text \<open>Modelled from the spec: the first return of the missing save primitive, which stores the
  snapshot and yields the discriminator \<open>0\<close> ("0 = first call" in context.h).
\<close>

definition first_capture :: save_prim where
  "first_capture regs fpu m =
     (0, update_ctx regs (\<lambda>c. c\<lparr>m_registers := capture_registers (cpu m) fpu (m_registers c)\<rparr>) m)"


text \<open>Modelled from the spec: the missing swap primitive "executes save into from immediately
  followed by the load-and-jump half of restore from to". This is the machine at the moment
  execution goes on in \<open>to_regs\<close>.
\<close>

definition context_swap_transfer :: "addr \<Rightarrow> addr \<Rightarrow> bool \<Rightarrow> machine \<Rightarrow> machine" where
  "context_swap_transfer from_regs to_regs fpu m =
     (let m1 = update_ctx from_regs
                 (\<lambda>c. c\<lparr>m_registers := capture_registers (cpu m) fpu (m_registers c)\<rparr>) m
      in m1\<lparr>cpu := load_registers (m_registers (heap m1 to_regs)) fpu (cpu m1)\<rparr>)"

text \<open>Modelled from the spec: the missing swap primitive "returns to its original caller only
  when some later operation performs swap/restore back into from". Here the call is seen from
  its caller in one such round trip: control is transferred to \<open>to_regs\<close>, the code running
  there does \<open>elsewhere\<close>, and then a swap from the block \<open>back\<close> (with FPU flag
  \<open>back_fpu\<close>) transfers control into \<open>from_regs\<close> again.
\<close>

definition round_trip_swap :: "(machine \<Rightarrow> machine) \<Rightarrow> addr \<Rightarrow> bool \<Rightarrow> swap_prim" where
  "round_trip_swap elsewhere back back_fpu from_regs to_regs fpu m =
     Some (context_swap_transfer back from_regs back_fpu
             (elsewhere (context_swap_transfer from_regs to_regs fpu m)))"

text \<open>A swap primitive whose caller is never resumed.\<close>

definition never_resumed :: swap_prim where
  "never_resumed from_regs to_regs fpu m = None"

text \<open>The registers a transfer must preserve, read off the live register file.\<close>

definition preserved_registers :: "cpu_state \<Rightarrow> ptr list" where
  "preserved_registers s =
     [cpu_r12 s, cpu_r13 s, cpu_r14 s, cpu_r15 s, cpu_rip s, cpu_rsp s, cpu_rbx s, cpu_rbp s]"

section \<open>Concrete objects and machines\<close>

text \<open>A context as the default constructor leaves it, and one seeded through the two
  pointer setters.\<close>

definition fresh_context :: Context where
  "fresh_context = Context_ctor zeroed_registers ContextConfig_default"

definition seeded_context :: Context where
  "seeded_context =
     snd (set_instruction_pointer 0x2000 (snd (set_stack_pointer 0x1000 fresh_context)))"

text \<open>A register file in the middle of a computation, and two machines over it: one whose
  objects are all fresh, one with seeded contexts at the addresses 10 and 20.\<close>

definition busy_cpu :: cpu_state where
  "busy_cpu =
     \<lparr>cpu_r12 = 5, cpu_r13 = 6, cpu_r14 = 7, cpu_r15 = 8, cpu_rip = 0x4000, cpu_rsp = 0x3000,
      cpu_rbx = 9, cpu_rbp = 0x3010, cpu_fpucw = 0x027F, cpu_mxcsr = 0x1FA0\<rparr>"

definition fresh_machine :: machine where
  "fresh_machine = \<lparr>cpu = busy_cpu, heap = (\<lambda>a. fresh_context)\<rparr>"

definition seeded_machine :: machine where
  "seeded_machine =
     \<lparr>cpu = busy_cpu, heap = (\<lambda>a. fresh_context)(10 := seeded_context, 20 := seeded_context)\<rparr>"



text \<open>The fresh machine after \<open>save()\<close> has captured the running execution point first
  into the object at address 10 and then into the one at address 20.\<close>

definition saved_machine :: machine where
  "saved_machine = snd (save first_capture 20 (snd (save first_capture 10 fresh_machine)))"

section \<open>Helper facts on 16-byte alignment\<close>

lemma and_15_iff_mod_16: "((w::ptr) AND 15 = 0) = (unat w mod 16 = 0)"
proof -
  have "w AND 15 = w AND mask 4" by (simp add: mask_eq_exp_minus_1)
  also have "\<dots> = take_bit 4 w" by (simp add: take_bit_eq_mask)
  finally have e: "w AND 15 = take_bit 4 w" .
  have "unat (take_bit 4 w) = unat w mod 16"
    by (simp add: unsigned_take_bit_eq take_bit_eq_mod unat_mod)
  then show ?thesis unfolding e by (metis unat_eq_0)
qed

lemma round_down_is_aligned: "((p::ptr) AND NOT 15) AND 15 = 0"
  by (simp add: and.assoc)

lemma round_down_le: "((p::ptr) AND NOT 15) \<le> p"
  by (rule word_and_le2)

lemma round_down_nonnull: "(16::ptr) \<le> p \<Longrightarrow> p AND NOT 15 \<noteq> 0"
proof
  assume ge: "16 \<le> p" and z: "p AND NOT 15 = 0"
  have "p = (p AND NOT 15) OR (p AND 15)"
    by (simp add: bit_eq_iff bit_simps) blast
  with z have "p = p AND 15" by simp
  moreover have "p AND 15 \<le> 15" by (rule word_and_le1)
  ultimately have "p \<le> 15" by simp
  with ge show False by (simp add: word_le_nat_alt)
qed

lemma is_valid_eq_validate_state: "is_valid c = validate_state c"
  by (auto simp: is_valid_def validate_state_def)



section \<open>Helper facts on the operations\<close>

lemma fresh_context_fields:
  "m_registers fresh_context = zeroed_registers\<lparr>fpucw := 0x037F, mxcsr := 0x1F80\<rparr>"
  "m_is_valid fresh_context = False" "m_switch_count fresh_context = 0"
  "m_config fresh_context = ContextConfig_default"
  by (simp_all add: fresh_context_def Context_ctor_def initialize_registers_def Let_def ContextConfig_default_def)

lemma seeded_context_fields:
  "m_registers seeded_context = zeroed_registers\<lparr>fpucw := 0x037F, mxcsr := 0x1F80, rsp := 0x1000, rip := 0x2000\<rparr>"
  "m_is_valid seeded_context = True" "m_switch_count seeded_context = 0"
  "m_config seeded_context = ContextConfig_default"
  by (simp_all add: seeded_context_def set_stack_pointer_def set_instruction_pointer_def Let_def
      fresh_context_fields is_stack_aligned_def libco_oop_is_stack_aligned_def zeroed_registers_def)

lemma fresh_context_invalid: "\<not> is_valid fresh_context"
  by (simp add: is_valid_def fresh_context_fields)

lemma seeded_context_valid: "is_valid seeded_context"
  by (simp add: is_valid_def validate_state_def seeded_context_fields zeroed_registers_def
      is_stack_aligned_def libco_oop_is_stack_aligned_def)

lemma stored_stack_pointer:
  "p \<noteq> 0 \<Longrightarrow> rsp (m_registers (snd (set_stack_pointer p c))) = (if p AND 15 = 0 then p else p AND NOT 15)"
  by (simp add: set_stack_pointer_def Let_def is_stack_aligned_def
        align_stack_pointer_def libco_oop_is_stack_aligned_def libco_oop_align_stack_pointer_def)

lemma stored_stack_pointer_ok:
  assumes "16 \<le> p"
  shows "(if p AND 15 = 0 then p else p AND NOT 15) \<noteq> 0 \<and> is_stack_aligned (if p AND 15 = 0 then p else p AND NOT 15)"
proof -
  from assms have nz: "p \<noteq> 0" by auto
  from assms have "p AND NOT 15 \<noteq> 0" by (rule round_down_nonnull)
  with nz round_down_is_aligned [of p] show ?thesis
    by (simp add: is_stack_aligned_def libco_oop_is_stack_aligned_def)
qed

lemma captured_pointers:
  "rsp (capture_registers s fpu regs) = cpu_rsp s" "rip (capture_registers s fpu regs) = cpu_rip s"
  by (simp_all add: capture_registers_def Let_def)

lemma load_captured:
  "preserved_registers (load_registers (capture_registers s fpu regs) fpu2 s2) = preserved_registers s"
  by (simp add: preserved_registers_def load_registers_def capture_registers_def Let_def)

lemma saved_machine_heap:
  "heap saved_machine 10 = fresh_context\<lparr>m_registers := capture_registers busy_cpu True (m_registers fresh_context), m_is_valid := True\<rparr>"
  "heap saved_machine 20 = fresh_context\<lparr>m_registers := capture_registers busy_cpu True (m_registers fresh_context), m_is_valid := True\<rparr>"
  "cpu saved_machine = busy_cpu"
  by (simp_all add: saved_machine_def save_def first_capture_def update_ctx_def fresh_machine_def
      fresh_context_fields ContextConfig_default_def)

lemma saved_machine_valid: "is_valid (heap saved_machine 10)" "is_valid (heap saved_machine 20)"
  by (simp_all add: saved_machine_heap is_valid_def validate_state_def captured_pointers
      busy_cpu_def is_stack_aligned_def libco_oop_is_stack_aligned_def)

lemma seeded_machine_valid: "is_valid (heap seeded_machine 10)" "is_valid (heap seeded_machine 20)"
  by (simp_all add: seeded_machine_def seeded_context_valid)

section \<open>The claims\<close>

subsection \<open>C1\<close>

text \<open>
  Claim C1. If \<open>a.is_valid()\<close> or \<open>b.is_valid()\<close> is false, \<open>a.swap(b)\<close> returns false
  and changes nothing: the whole machine, and with it the register block, flag, counter and
  configuration of both objects, is as before, whatever the swap primitive is. It also holds
  when \<open>a\<close> and \<open>b\<close> are the same object.
\<close>

theorem swap_rejects_invalid_context:
  "\<not> is_valid (heap m a) \<or> \<not> is_valid (heap m b) \<Longrightarrow> swap prim a b m = Some (False, m)"
  by (auto simp: swap_def is_valid_eq_validate_state)

theorem swap_rejects_invalid_context_witness:
  "\<not> is_valid (heap fresh_machine 10)
   \<and> swap never_resumed 10 20 fresh_machine = Some (False, fresh_machine)
   \<and> swap never_resumed 20 10 seeded_machine \<noteq> Some (False, seeded_machine)"
proof -
  have inv: "\<not> is_valid (heap fresh_machine 10)"
    by (simp add: fresh_machine_def fresh_context_invalid)
  have "swap never_resumed 20 10 seeded_machine = None"
    using seeded_context_valid
    by (simp add: swap_def seeded_machine_def never_resumed_def is_valid_eq_validate_state)
  with inv swap_rejects_invalid_context [of fresh_machine 10 20 never_resumed] show ?thesis by simp
qed

subsection \<open>C2\<close>

text \<open>
  Claim C2. \<open>restore()\<close> on a Context whose \<open>is_valid()\<close> is false terminates the process:
  the outcome is termination and not a transfer. When \<open>is_valid()\<close> is true the termination
  branch is not taken, and the outcome is what the restore primitive yields for this Context's
  register block and its configured \<open>save_fpu\<close> flag, for every primitive. There is no
  outcome in which \<open>restore()\<close> returns.
\<close>

theorem restore_terminates_or_transfers:
  "(\<not> is_valid (heap m this) \<longrightarrow> restore prim this m = Terminated)
   \<and> (is_valid (heap m this) \<longrightarrow>
        restore prim this m = Transferred (prim this (save_fpu (get_config (heap m this))) m)
        \<and> restore prim this m \<noteq> Terminated)"
  by (simp add: restore_def is_valid_def get_config_def)

theorem restore_terminates_or_transfers_witness:
  "\<not> is_valid (heap fresh_machine 10) \<and> restore context_restore_transfer 10 fresh_machine = Terminated
   \<and> is_valid (heap seeded_machine 10)
   \<and> restore context_restore_transfer 10 seeded_machine \<noteq> Terminated
   \<and> restore context_restore_transfer 10 seeded_machine = Transferred (context_restore_transfer 10 True seeded_machine)"
proof -
  have inv: "\<not> is_valid (heap fresh_machine 10)"
    by (simp add: fresh_machine_def fresh_context_invalid)
  have val: "is_valid (heap seeded_machine 10)"
    by (simp add: seeded_machine_def seeded_context_valid)
  have fl: "save_fpu (get_config (heap seeded_machine 10)) = True"
    by (simp add: seeded_machine_def get_config_def seeded_context_fields ContextConfig_default_def)
  from inv val restore_terminates_or_transfers [of fresh_machine 10 context_restore_transfer]
    restore_terminates_or_transfers [of seeded_machine 10 context_restore_transfer]
  show ?thesis unfolding fl by simp
qed

subsection \<open>C3\<close>

text \<open>
  Claim C3. For valid \<open>a\<close> and \<open>b\<close>, \<open>a.swap(b)\<close> calls the swap primitive with the two
  register blocks and the conjunction of the two configured \<open>save_fpu\<close> flags, for every
  primitive. When that call comes back, \<open>swap\<close> returns true, the counter of \<open>a\<close> is one
  more (in \<open>size_t\<close> arithmetic) than it was when the call came back, and the flag of \<open>a\<close>
  is set. In particular, if the counter was 0 before the call and nothing changed it while
  \<open>a\<close> was suspended, \<open>get_switch_count()\<close> is 1 afterwards.
\<close>

theorem swap_of_valid_contexts:
  assumes "is_valid (heap m a)" and "is_valid (heap m b)"
  shows "swap prim a b m =
      (case prim a b (save_fpu (get_config (heap m a)) \<and> save_fpu (get_config (heap m b))) m of
         None \<Rightarrow> None
       | Some m1 \<Rightarrow>
           Some (True, update_ctx a
                   (\<lambda>c. c\<lparr>m_switch_count := m_switch_count c + 1, m_is_valid := True\<rparr>) m1))
    \<and> (\<forall>m1. prim a b (save_fpu (get_config (heap m a)) \<and> save_fpu (get_config (heap m b))) m = Some m1 \<longrightarrow>
          (\<exists>m2. swap prim a b m = Some (True, m2)
             \<and> get_switch_count (heap m2 a) = get_switch_count (heap m1 a) + 1
             \<and> m_is_valid (heap m2 a)
             \<and> (get_switch_count (heap m a) = 0 \<and> get_switch_count (heap m1 a) = get_switch_count (heap m a)
                  \<longrightarrow> get_switch_count (heap m2 a) = 1)))"
  using assms
  by (simp add: swap_def is_valid_eq_validate_state get_config_def get_switch_count_def
      update_ctx_def split: option.splits)

theorem swap_of_valid_contexts_witness:
  "is_valid (heap saved_machine 10) \<and> is_valid (heap saved_machine 20)
   \<and> get_switch_count (heap saved_machine 10) = 0
   \<and> swap (round_trip_swap id 20 True) 10 20 saved_machine \<noteq> None
   \<and> fst (the (swap (round_trip_swap id 20 True) 10 20 saved_machine)) = True
   \<and> get_switch_count (heap (snd (the (swap (round_trip_swap id 20 True) 10 20 saved_machine))) 10) = 1"
proof -
  let ?m1 = "context_swap_transfer 20 10 True (context_swap_transfer 10 20 True saved_machine)"
  have fl: "(save_fpu (get_config (heap saved_machine 10)) \<and> save_fpu (get_config (heap saved_machine 20))) = True"
    by (simp add: saved_machine_heap get_config_def fresh_context_fields ContextConfig_default_def)
  have call: "round_trip_swap id 20 True 10 20
      (save_fpu (get_config (heap saved_machine 10)) \<and> save_fpu (get_config (heap saved_machine 20)))
      saved_machine = Some ?m1"
    unfolding fl by (simp add: round_trip_swap_def)
  have cnt: "get_switch_count (heap saved_machine 10) = 0"
    "get_switch_count (heap ?m1 10) = get_switch_count (heap saved_machine 10)"
    by (simp_all add: get_switch_count_def context_swap_transfer_def update_ctx_def Let_def
        saved_machine_heap fresh_context_fields)
  from swap_of_valid_contexts [OF saved_machine_valid, of "round_trip_swap id 20 True"] call cnt
  obtain m2 where "swap (round_trip_swap id 20 True) 10 20 saved_machine = Some (True, m2)"
    and "get_switch_count (heap m2 10) = 1"
    by blast
  with cnt saved_machine_valid show ?thesis by simp
qed

subsection \<open>C4\<close>

text \<open>
  Claim C4. \<open>reset()\<close> leaves a Context in the state the constructor gives for the same
  configuration, whatever the storage held before. In that state \<open>is_valid()\<close> is false,
  \<open>get_switch_count()\<close> is 0, the configuration is the one given, and every field of the
  register block (the eight pointer registers, the two control words and the padding) is
  zero, except that with \<open>save_fpu\<close> the FPU control word is \<open>0x037F\<close> and MXCSR is
  \<open>0x1F80\<close>, both non-zero.
\<close>

theorem fresh_and_reset_agree:
  "reset c = Context_ctor raw (m_config c)
   \<and> \<not> is_valid (Context_ctor raw cfg)
   \<and> get_switch_count (Context_ctor raw cfg) = 0
   \<and> get_config (Context_ctor raw cfg) = cfg
   \<and> m_registers (Context_ctor raw cfg) =
       \<lparr>r12 = 0, r13 = 0, r14 = 0, r15 = 0, rip = 0, rsp = 0, rbx = 0, rbp = 0,
        fpucw = (if save_fpu cfg then 0x037F else 0),
        mxcsr = (if save_fpu cfg then 0x1F80 else 0),
        pad = 0\<rparr>
   \<and> (0x037F :: 16 word) \<noteq> 0 \<and> (0x1F80 :: 32 word) \<noteq> 0"
  by (simp add: reset_def Context_ctor_def initialize_registers_def Let_def is_valid_def
      get_switch_count_def get_config_def zeroed_registers_def)

theorem fresh_and_reset_agree_witness:
  "reset seeded_context = fresh_context
   \<and> is_valid seeded_context \<and> \<not> is_valid fresh_context
   \<and> get_switch_count fresh_context = 0
   \<and> m_registers fresh_context =
       \<lparr>r12 = 0, r13 = 0, r14 = 0, r15 = 0, rip = 0, rsp = 0, rbx = 0, rbp = 0,
        fpucw = 0x037F, mxcsr = 0x1F80, pad = 0\<rparr>
   \<and> m_registers (Context_ctor (m_registers seeded_context)
         \<lparr>mode = MINIMAL, save_fpu = False, enable_debugging = False\<rparr>) =
       \<lparr>r12 = 0, r13 = 0, r14 = 0, r15 = 0, rip = 0, rsp = 0, rbx = 0, rbp = 0,
        fpucw = 0, mxcsr = 0, pad = 0\<rparr>"
proof -
  have cfg: "m_config seeded_context = ContextConfig_default"
    by (rule seeded_context_fields)
  have fpu: "save_fpu ContextConfig_default"
    by (simp add: ContextConfig_default_def)
  from fresh_and_reset_agree [of seeded_context zeroed_registers ContextConfig_default]
  have "reset seeded_context = fresh_context" "\<not> is_valid fresh_context"
    "get_switch_count fresh_context = 0"
    "m_registers fresh_context =
       \<lparr>r12 = 0, r13 = 0, r14 = 0, r15 = 0, rip = 0, rsp = 0, rbx = 0, rbp = 0,
        fpucw = (if save_fpu ContextConfig_default then 0x037F else 0),
        mxcsr = (if save_fpu ContextConfig_default then 0x1F80 else 0),
        pad = 0\<rparr>"
    unfolding cfg fresh_context_def by blast+
  moreover
  from fresh_and_reset_agree [of seeded_context "m_registers seeded_context"
      "\<lparr>mode = MINIMAL, save_fpu = False, enable_debugging = False\<rparr>"]
  have "m_registers (Context_ctor (m_registers seeded_context)
         \<lparr>mode = MINIMAL, save_fpu = False, enable_debugging = False\<rparr>) =
       \<lparr>r12 = 0, r13 = 0, r14 = 0, r15 = 0, rip = 0, rsp = 0, rbx = 0, rbp = 0,
        fpucw = 0, mxcsr = 0, pad = 0\<rparr>"
    by simp
  ultimately show ?thesis
    using fpu by (simp add: seeded_context_valid)
qed

subsection \<open>C5\<close>

text \<open>
  Claim C5. \<open>set_stack_pointer(nullptr)\<close> returns false and leaves the whole Context as it
  was. For every non-null \<open>p\<close>, \<open>set_stack_pointer(p)\<close> returns true and the stored pointer is
  a multiple of 16, is at most \<open>p\<close>, lies less than 16 below \<open>p\<close> (\<open>p\<close> rounded down), and
  is \<open>p\<close> itself when \<open>p\<close> is a multiple of 16. Alignment is the numeric property of the
  address; for a non-null \<open>p\<close> below 16 the stored pointer is therefore null.
\<close>

theorem set_stack_pointer_rounds_down:
  "set_stack_pointer 0 c = (False, c)
   \<and> (p \<noteq> 0 \<longrightarrow>
        fst (set_stack_pointer p c) = True
        \<and> unat (get_stack_pointer (snd (set_stack_pointer p c))) mod 16 = 0
        \<and> get_stack_pointer (snd (set_stack_pointer p c)) \<le> p
        \<and> unat p - unat (get_stack_pointer (snd (set_stack_pointer p c))) < 16
        \<and> (unat p mod 16 = 0 \<longrightarrow> get_stack_pointer (snd (set_stack_pointer p c)) = p))"
proof -
  have null: "set_stack_pointer 0 c = (False, c)" by (simp add: set_stack_pointer_def)
  have stored: "get_stack_pointer (snd (set_stack_pointer p c)) = (if p AND 15 = 0 then p else p AND NOT 15)"
    if "p \<noteq> 0"
    using that by (simp add: get_stack_pointer_def stored_stack_pointer)
  have ret: "fst (set_stack_pointer p c) = True" if "p \<noteq> 0"
    using that by (simp add: set_stack_pointer_def Let_def)
  have diff: "unat p - unat (p AND NOT 15) < 16"
  proof -
    have "(p AND 15) AND (p AND NOT 15) = 0"
      by (simp add: bit_eq_iff bit_simps)
    then have "(p AND 15) + (p AND NOT 15) = (p AND 15) OR (p AND NOT 15)"
      by (rule disjunctive_add_eq_or)
    also have "\<dots> = p"
      by (simp add: bit_eq_iff bit_simps) blast
    finally have "(p AND 15) + (p AND NOT 15) = p" .
    then have "p - (p AND NOT 15) = p AND 15" by (metis add_diff_cancel_right')
    moreover have "p AND 15 \<le> 15" by (rule word_and_le1)
    ultimately have "p - (p AND NOT 15) \<le> 15" by simp
    then have "unat (p - (p AND NOT 15)) \<le> 15" by (simp add: word_le_nat_alt)
    moreover have "unat (p - (p AND NOT 15)) = unat p - unat (p AND NOT 15)"
      by (rule unat_sub) (rule round_down_le)
    ultimately show ?thesis by simp
  qed
  show ?thesis
    using null ret stored diff round_down_le [of p] round_down_is_aligned [of p]
    by (auto simp: and_15_iff_mod_16)
qed

theorem set_stack_pointer_rounds_down_witness:
  "(0x1008::ptr) \<noteq> 0
   \<and> fst (set_stack_pointer 0x1008 fresh_context) = True
   \<and> get_stack_pointer (snd (set_stack_pointer 0x1008 fresh_context)) = 0x1000
   \<and> unat (get_stack_pointer (snd (set_stack_pointer 0x1008 fresh_context))) mod 16 = 0
   \<and> get_stack_pointer (snd (set_stack_pointer 0x1008 fresh_context)) \<le> 0x1008
   \<and> set_stack_pointer 0 fresh_context = (False, fresh_context)"
proof -
  have v: "get_stack_pointer (snd (set_stack_pointer 0x1008 fresh_context)) = 0x1000"
    by (simp add: get_stack_pointer_def stored_stack_pointer)
  have nz: "(0x1008::ptr) \<noteq> 0" by simp
  from set_stack_pointer_rounds_down [of fresh_context "0x1008"] nz
  have "fst (set_stack_pointer 0x1008 fresh_context) = True
    \<and> unat (get_stack_pointer (snd (set_stack_pointer 0x1008 fresh_context))) mod 16 = 0
    \<and> get_stack_pointer (snd (set_stack_pointer 0x1008 fresh_context)) \<le> 0x1008
    \<and> set_stack_pointer 0 fresh_context = (False, fresh_context)"
    by blast
  with v nz show ?thesis by blast
qed

subsection \<open>C6\<close>

text \<open>
  Claim C6, amended. Start from a Context whose validity flag is clear and whose counter is 0
  (as after construction or \<open>reset()\<close>). For a stack pointer \<open>p\<close> of at least 16, so that
  rounding it down does not give null, and a non-null instruction pointer \<open>q\<close>, the two
  setters in either order make \<open>is_valid()\<close> true with \<open>get_switch_count()\<close> still 0. Each
  setter alone, while the other stored pointer is null, leaves \<open>is_valid()\<close> false.
\<close>

theorem seeding_makes_context_valid:
  assumes "\<not> m_is_valid c" and "m_switch_count c = 0" and "16 \<le> p" and "q \<noteq> 0"
  shows "is_valid (snd (set_instruction_pointer q (snd (set_stack_pointer p c))))
   \<and> get_switch_count (snd (set_instruction_pointer q (snd (set_stack_pointer p c)))) = 0
   \<and> is_valid (snd (set_stack_pointer p (snd (set_instruction_pointer q c))))
   \<and> get_switch_count (snd (set_stack_pointer p (snd (set_instruction_pointer q c)))) = 0
   \<and> (get_instruction_pointer c = 0 \<longrightarrow> \<not> is_valid (snd (set_stack_pointer p c)))
   \<and> (get_stack_pointer c = 0 \<longrightarrow> \<not> is_valid (snd (set_instruction_pointer q c)))"
proof -
  from assms(3) have nz: "p \<noteq> 0" by auto
  note ok = stored_stack_pointer_ok [OF assms(3)]
  show ?thesis
    using assms(1,2,4) nz ok
    by (auto simp: set_stack_pointer_def set_instruction_pointer_def Let_def is_valid_def validate_state_def
        get_switch_count_def get_instruction_pointer_def get_stack_pointer_def
        align_stack_pointer_def libco_oop_align_stack_pointer_def
        is_stack_aligned_def libco_oop_is_stack_aligned_def split: if_splits)
qed

theorem seeding_makes_context_valid_witness:
  "\<not> m_is_valid fresh_context \<and> m_switch_count fresh_context = 0
   \<and> (16::ptr) \<le> 0x1008 \<and> (0x2000::ptr) \<noteq> 0
   \<and> get_instruction_pointer fresh_context = 0 \<and> get_stack_pointer fresh_context = 0
   \<and> is_valid (snd (set_instruction_pointer 0x2000 (snd (set_stack_pointer 0x1008 fresh_context))))
   \<and> is_valid (snd (set_stack_pointer 0x1008 (snd (set_instruction_pointer 0x2000 fresh_context))))
   \<and> \<not> is_valid (snd (set_stack_pointer 0x1008 fresh_context))
   \<and> \<not> is_valid (snd (set_instruction_pointer 0x2000 fresh_context))"
proof -
  have h: "\<not> m_is_valid fresh_context" "m_switch_count fresh_context = 0"
    "(16::ptr) \<le> 0x1008" "(0x2000::ptr) \<noteq> 0"
    by (simp_all add: fresh_context_fields)
  have n: "get_instruction_pointer fresh_context = 0" "get_stack_pointer fresh_context = 0"
    by (simp_all add: get_instruction_pointer_def get_stack_pointer_def fresh_context_fields
        zeroed_registers_def)
  from seeding_makes_context_valid [OF h] h n show ?thesis by blast
qed

text \<open>
  Claim C6 as stated fails for a non-null stack pointer below 16, which rounds down to null:
  on a fresh Context both setters return true, in either order, and \<open>is_valid()\<close> is still
  false.
\<close>

theorem seeding_below_alignment_stays_invalid:
  "\<not> is_valid fresh_context
   \<and> fst (set_stack_pointer 8 fresh_context) = True
   \<and> fst (set_instruction_pointer 0x1000 (snd (set_stack_pointer 8 fresh_context))) = True
   \<and> \<not> is_valid (snd (set_instruction_pointer 0x1000 (snd (set_stack_pointer 8 fresh_context))))
   \<and> \<not> is_valid (snd (set_stack_pointer 8 (snd (set_instruction_pointer 0x1000 fresh_context))))"
  by (simp add: set_instruction_pointer_def set_stack_pointer_def Let_def fresh_context_fields
      is_valid_def validate_state_def is_stack_aligned_def align_stack_pointer_def
      libco_oop_is_stack_aligned_def libco_oop_align_stack_pointer_def zeroed_registers_def)

subsection \<open>C7\<close>




subsection \<open>C8\<close>

text \<open>
  Claim C8, amended. Move construction into a new object, and move assignment between two
  distinct objects, give the destination the register block, configuration, validity flag and
  counter of the source; afterwards the source has \<open>is_valid()\<close> false and
  \<open>get_switch_count()\<close> 0. Move assignment of an object to itself changes nothing.
\<close>

theorem move_transfers_ownership:
  "(this \<noteq> other \<longrightarrow>
      heap (move_ctor this other m) this = heap m other
      \<and> heap (move_assign this other m) this = heap m other
      \<and> \<not> is_valid (heap (move_ctor this other m) other)
      \<and> get_switch_count (heap (move_ctor this other m) other) = 0
      \<and> \<not> is_valid (heap (move_assign this other m) other)
      \<and> get_switch_count (heap (move_assign this other m) other) = 0)
   \<and> move_assign this this m = m"
  by (simp add: move_ctor_def move_assign_def update_ctx_def Let_def is_valid_def
      get_switch_count_def)

theorem move_transfers_ownership_witness:
  "(20::nat) \<noteq> 10 \<and> (30::nat) \<noteq> 10
   \<and> is_valid (heap seeded_machine 10)
   \<and> heap (move_assign 20 10 seeded_machine) 20 = seeded_context
   \<and> \<not> is_valid (heap (move_assign 20 10 seeded_machine) 10)
   \<and> heap (move_ctor 30 10 seeded_machine) 30 = seeded_context
   \<and> \<not> is_valid (heap (move_ctor 30 10 seeded_machine) 10)
   \<and> move_assign 10 10 seeded_machine = seeded_machine"
proof -
  have val: "is_valid (heap seeded_machine 10)" "heap seeded_machine 10 = seeded_context"
    by (simp_all add: seeded_machine_def seeded_context_valid)
  from val move_transfers_ownership [of 20 10 seeded_machine] move_transfers_ownership [of 30 10 seeded_machine] move_transfers_ownership [of 10 10 seeded_machine]
  show ?thesis by simp
qed

text \<open>
  Claim C8 as stated fails for move assignment of a valid Context to itself: the guard skips
  the body, so the moved-from source is still valid.
\<close>

theorem self_move_assign_keeps_source_valid:
  "is_valid (heap seeded_machine 10)
   \<and> \<not> (\<not> is_valid (heap (move_assign 10 10 seeded_machine) 10)
          \<and> get_switch_count (heap (move_assign 10 10 seeded_machine) 10) = 0)"
  by (simp add: move_assign_def seeded_machine_def seeded_context_valid)

subsection \<open>C9\<close>

text \<open>
  Claim C9, amended. Let \<open>a\<close> and \<open>b\<close> be valid, let the code that runs after the transfer
  to \<open>b\<close> leave the object \<open>a\<close> alone, and let a swap from another block then transfer
  back into \<open>a\<close>. Then \<open>a.swap(b)\<close> returns true; the register block of \<open>a\<close> holds the
  snapshot that the swap captured on entry (written over what the block held before the
  call); the live callee-saved registers, stack pointer and resume address are again those
  captured; the configuration and validity flag of \<open>a\<close> are unchanged; its counter is one more
  (in \<open>size_t\<close> arithmetic); and if the captured stack pointer is not null and 16-byte
  aligned and the captured resume address is not null, \<open>a\<close> is valid.
\<close>

theorem swap_round_trip_snapshot:
  assumes "is_valid (heap m a)" and "is_valid (heap m b)" and "back \<noteq> a"
    and "\<forall>s. heap (elsewhere s) a = heap s a"
  shows "\<exists>m'. swap (round_trip_swap elsewhere back back_fpu) a b m = Some (True, m')
      \<and> m_registers (heap m' a) =
          capture_registers (cpu m)
            (save_fpu (get_config (heap m a)) \<and> save_fpu (get_config (heap m b)))
            (m_registers (heap m a))
      \<and> preserved_registers (cpu m') = preserved_registers (cpu m)
      \<and> get_config (heap m' a) = get_config (heap m a)
      \<and> m_is_valid (heap m' a) = m_is_valid (heap m a)
      \<and> get_switch_count (heap m' a) = get_switch_count (heap m a) + 1
      \<and> (cpu_rsp (cpu m) \<noteq> 0 \<and> cpu_rsp (cpu m) AND 15 = 0 \<and> cpu_rip (cpu m) \<noteq> 0
            \<longrightarrow> is_valid (heap m' a))"
proof -
  let ?fpu = "save_fpu (m_config (heap m a)) \<and> save_fpu (m_config (heap m b))"
  let ?snap = "capture_registers (cpu m) ?fpu (m_registers (heap m a))"
  let ?m1 = "context_swap_transfer a b ?fpu m"
  let ?m2 = "elsewhere ?m1"
  let ?m3 = "context_swap_transfer back a back_fpu ?m2"
  let ?m4 = "update_ctx a (\<lambda>c. c\<lparr>m_switch_count := m_switch_count c + 1, m_is_valid := True\<rparr>) ?m3"
  from assms(1) have flag: "m_is_valid (heap m a)" by (simp add: is_valid_def)
  have h1: "heap ?m1 a = (heap m a)\<lparr>m_registers := ?snap\<rparr>"
    by (simp add: context_swap_transfer_def update_ctx_def Let_def)
  from assms(4) have h2: "heap ?m2 a = (heap m a)\<lparr>m_registers := ?snap\<rparr>"
    using h1 by simp
  from assms(3) have h3: "heap ?m3 a = (heap m a)\<lparr>m_registers := ?snap\<rparr>"
    using h2 by (simp add: context_swap_transfer_def update_ctx_def Let_def)
  have c3: "cpu ?m3 = load_registers ?snap back_fpu (cpu ?m2)"
    using assms(3) h2 by (simp add: context_swap_transfer_def update_ctx_def Let_def)
  have ret: "swap (round_trip_swap elsewhere back back_fpu) a b m = Some (True, ?m4)"
    using assms(1,2)
    by (simp add: swap_def is_valid_eq_validate_state round_trip_swap_def)
  have h4: "heap ?m4 a = (heap m a)\<lparr>m_registers := ?snap, m_switch_count := m_switch_count (heap m a) + 1,
      m_is_valid := True\<rparr>"
    using h3 by (simp add: update_ctx_def)
  have c4: "cpu ?m4 = load_registers ?snap back_fpu (cpu ?m2)"
    using c3 by (simp add: update_ctx_def)
  have valid: "is_valid (heap ?m4 a)"
    if "cpu_rsp (cpu m) \<noteq> 0 \<and> cpu_rsp (cpu m) AND 15 = 0 \<and> cpu_rip (cpu m) \<noteq> 0"
    using that unfolding h4
    by (simp add: is_valid_def validate_state_def captured_pointers
        is_stack_aligned_def libco_oop_is_stack_aligned_def)
  show ?thesis
    using ret h4 c4 flag valid
    by (simp add: get_config_def get_switch_count_def load_captured)
qed

theorem swap_round_trip_snapshot_witness:
  "is_valid (heap seeded_machine 10) \<and> is_valid (heap seeded_machine 20) \<and> (20::nat) \<noteq> 10
   \<and> (\<forall>s. heap (id s) 10 = heap s 10)
   \<and> cpu_rsp (cpu seeded_machine) \<noteq> 0 \<and> cpu_rsp (cpu seeded_machine) AND 15 = 0
   \<and> cpu_rip (cpu seeded_machine) \<noteq> 0
   \<and> swap (round_trip_swap id 20 True) 10 20 seeded_machine \<noteq> None
   \<and> fst (the (swap (round_trip_swap id 20 True) 10 20 seeded_machine)) = True
   \<and> get_switch_count (heap (snd (the (swap (round_trip_swap id 20 True) 10 20 seeded_machine))) 10) = 1
   \<and> is_valid (heap (snd (the (swap (round_trip_swap id 20 True) 10 20 seeded_machine))) 10)
   \<and> preserved_registers (cpu (snd (the (swap (round_trip_swap id 20 True) 10 20 seeded_machine))))
       = preserved_registers busy_cpu"
proof -
  have ne: "(20::nat) \<noteq> 10" by simp
  have el: "\<forall>s. heap (id s) 10 = heap s 10" by simp
  have abi: "cpu_rsp (cpu seeded_machine) \<noteq> 0 \<and> cpu_rsp (cpu seeded_machine) AND 15 = 0
      \<and> cpu_rip (cpu seeded_machine) \<noteq> 0"
    by (simp add: seeded_machine_def busy_cpu_def)
  have c0: "get_switch_count (heap seeded_machine 10) = 0" "cpu seeded_machine = busy_cpu"
    by (simp_all add: seeded_machine_def get_switch_count_def seeded_context_fields)
  from swap_round_trip_snapshot [OF seeded_machine_valid ne el, of True] abi
  obtain m' where "swap (round_trip_swap id 20 True) 10 20 seeded_machine = Some (True, m')"
    and "preserved_registers (cpu m') = preserved_registers (cpu seeded_machine)"
    and "get_switch_count (heap m' 10) = get_switch_count (heap seeded_machine 10) + 1"
    and "is_valid (heap m' 10)"
    by blast
  with abi c0 seeded_machine_valid ne el show ?thesis by simp
qed

text \<open>
  Claim C9 as stated fails where the register block of \<open>a\<close> before the call differs from the
  execution point the swap captures: after the round trip the block holds the captured stack
  pointer \<open>0x3000\<close>, not the \<open>0x1000\<close> it held before.
\<close>

theorem swap_round_trip_overwrites_block:
  "is_valid (heap seeded_machine 10) \<and> is_valid (heap seeded_machine 20)
   \<and> swap (round_trip_swap id 20 True) 10 20 seeded_machine \<noteq> None
   \<and> fst (the (swap (round_trip_swap id 20 True) 10 20 seeded_machine)) = True
   \<and> get_stack_pointer (heap seeded_machine 10) = 0x1000
   \<and> get_stack_pointer (heap (snd (the (swap (round_trip_swap id 20 True) 10 20 seeded_machine))) 10) = 0x3000
   \<and> m_registers (heap (snd (the (swap (round_trip_swap id 20 True) 10 20 seeded_machine))) 10)
       \<noteq> m_registers (heap seeded_machine 10)"
proof -
  let ?after = "update_ctx 10 (\<lambda>c. c\<lparr>m_switch_count := m_switch_count c + 1, m_is_valid := True\<rparr>)
        (context_swap_transfer 20 10 True (context_swap_transfer 10 20 True seeded_machine))"
  have fl: "save_fpu (m_config (heap seeded_machine 10))" "save_fpu (m_config (heap seeded_machine 20))"
    by (simp_all add: seeded_machine_def seeded_context_fields ContextConfig_default_def)
  have sw: "swap (round_trip_swap id 20 True) 10 20 seeded_machine = Some (True, ?after)"
    using seeded_machine_valid fl
    by (simp add: swap_def is_valid_eq_validate_state round_trip_swap_def)
  have sp0: "get_stack_pointer (heap seeded_machine 10) = 0x1000"
    by (simp add: seeded_machine_def get_stack_pointer_def seeded_context_fields)
  have sp1: "get_stack_pointer (heap ?after 10) = 0x3000"
    by (simp add: get_stack_pointer_def update_ctx_def context_swap_transfer_def Let_def
        captured_pointers seeded_machine_def busy_cpu_def)
  have "m_registers (heap ?after 10) \<noteq> m_registers (heap seeded_machine 10)"
  proof
    assume "m_registers (heap ?after 10) = m_registers (heap seeded_machine 10)"
    then have "get_stack_pointer (heap ?after 10) = get_stack_pointer (heap seeded_machine 10)"
      by (simp only: get_stack_pointer_def)
    with sp0 sp1 show False by simp
  qed
  with sw sp0 sp1 seeded_machine_valid show ?thesis by simp
qed

subsection \<open>C10\<close>

text \<open>
  Claim C10 fails on the code. On a fresh Context, \<open>set_instruction_pointer(0x1000)\<close> and
  then \<open>set_stack_pointer(8)\<close> both return true; the second call tests its argument for null
  before rounding, stores the rounded pointer, which is null, and sets the validity flag
  because the instruction pointer is not null. The flag is then set while the stored stack
  pointer is null. The same call on a valid Context leaves the flag set and nulls the pointer.
\<close>

theorem validity_flag_with_null_stack_pointer:
  "fst (set_instruction_pointer 0x1000 fresh_context) = True
   \<and> fst (set_stack_pointer 8 (snd (set_instruction_pointer 0x1000 fresh_context))) = True
   \<and> m_is_valid (snd (set_stack_pointer 8 (snd (set_instruction_pointer 0x1000 fresh_context)))) = True
   \<and> get_stack_pointer (snd (set_stack_pointer 8 (snd (set_instruction_pointer 0x1000 fresh_context)))) = 0
   \<and> is_valid seeded_context
   \<and> fst (set_stack_pointer 8 seeded_context) = True
   \<and> m_is_valid (snd (set_stack_pointer 8 seeded_context)) = True
   \<and> get_stack_pointer (snd (set_stack_pointer 8 seeded_context)) = 0"
  by (simp add: set_instruction_pointer_def set_stack_pointer_def Let_def fresh_context_fields
      seeded_context_fields seeded_context_valid
      get_stack_pointer_def is_stack_aligned_def align_stack_pointer_def
      libco_oop_is_stack_aligned_def libco_oop_align_stack_pointer_def zeroed_registers_def)

end
